theory Spec2Isabelle
  imports Main
begin

section \<open>Errors, as github.com/pkg/errors builds them\<close>

text \<open>
  The source creates errors with \<^verbatim>\<open>errors.New\<close> and decorates them with
  \<^verbatim>\<open>errors.Wrap\<close>. An error value is either a root error carrying a message or an
  error that carries a message and the error it was wrapped around (the cause). The
  stack trace that the library records beside the message is not modelled. Errors
  returned by steps, by the JSON encoder and by the storage are values of the same type.
\<close>

datatype error = fundamental string | withMessage error string

definition errors_New :: "string \<Rightarrow> error" where
  "errors_New message = fundamental message"

text \<open>\<^verbatim>\<open>errors.Wrap\<close> returns nil for a nil error (\<open>None\<close> is the nil error).\<close>

fun errors_Wrap :: "error option \<Rightarrow> string \<Rightarrow> error option" where
  "errors_Wrap None message = None"
| "errors_Wrap (Some err) message = Some (withMessage err message)"

text \<open>The \<^verbatim>\<open>Error()\<close> method: a wrapper prints its message, a colon, and the cause.\<close>

fun Error :: "error \<Rightarrow> string" where
  "Error (fundamental msg) = msg"
| "Error (withMessage cause msg) = msg @ '': '' @ Error cause"

text \<open>\<^verbatim>\<open>errors.Cause\<close>: the innermost error of the chain.\<close>

fun Cause :: "error \<Rightarrow> error" where
  "Cause (fundamental msg) = fundamental msg"
| "Cause (withMessage cause msg) = Cause cause"

text \<open>The error chain, outermost first, and the messages attached along it.\<close>

fun chain :: "error \<Rightarrow> error list" where
  "chain (fundamental msg) = [fundamental msg]"
| "chain (withMessage cause msg) = withMessage cause msg # chain cause"

fun messages :: "error \<Rightarrow> string list" where
  "messages (fundamental msg) = [msg]"
| "messages (withMessage cause msg) = msg # messages cause"

section \<open>What a call can do besides returning\<close>

text \<open>
  A Go call either returns or panics. The panics the modelled code can raise itself
  are a method call through a nil interface or pointer and a slice expression beyond
  the length of a string.
\<close>

datatype panic = NilDereference | SliceBoundsOutOfRange

datatype 'a outcome = Return 'a | Panic panic

section \<open>Package provider: the preProvision composite step\<close>

subsection \<open>The run state\<close>

text \<open>
  \<^verbatim>\<open>clouds.Name\<close> is a string type. Of \<^verbatim>\<open>steps.Config\<close> the composite step reads the
  field \<^verbatim>\<open>Provider\<close> only; everything else the struct holds is \<open>rest\<close>.
\<close>

type_synonym clouds_Name = string

record 'c Config =
  Provider :: clouds_Name
  rest :: 'c

text \<open>
  The three arguments of \<^verbatim>\<open>Run(ctx, out, cfg)\<close> refer to mutable things: the context
  (cancelled or not), the bytes written so far to the writer \<^verbatim>\<open>out\<close>, and the Config
  behind the pointer \<^verbatim>\<open>cfg\<close> (\<open>None\<close> is the nil pointer). \<open>cloud\<close> stands for all
  that steps change outside the process. The state is threaded through every call.
\<close>

record ('c, 'x) state =
  cancelled :: bool
  out :: string
  config :: "'c Config option"
  cloud :: 'x

subsection \<open>Steps and the registry\<close>

text \<open>
  The \<^verbatim>\<open>steps.Step\<close> interface. \<open>Run\<close> and \<open>Rollback\<close> take the run state and give
  back the error they return (\<open>None\<close> is nil) and the state they leave. A step is
  taken to return from both: a step that panics or never returns is outside the model.
\<close>

record ('c, 'x) Step =
  Name :: string
  Description :: string
  Depends :: "string list"
  Run :: "('c, 'x) state \<Rightarrow> error option \<times> ('c, 'x) state"
  Rollback :: "('c, 'x) state \<Rightarrow> error option \<times> ('c, 'x) state"

text \<open>
  The constants and the table that the source imports from the packages
  \<^verbatim>\<open>clouds\<close>, \<^verbatim>\<open>amazon\<close>, \<^verbatim>\<open>azure\<close> and \<^verbatim>\<open>steps\<close> are parameters of the model:
  the four provider names, the eleven step names, and the process-wide registry
  \<^verbatim>\<open>stepsMap\<close> from step names to step instances.
\<close>

record ('c, 'x) env =
  AWS :: clouds_Name
  DigitalOcean :: clouds_Name
  GCE :: clouds_Name
  Azure :: clouds_Name
  amazon_StepFindAMI :: string
  amazon_StepCreateVPC :: string
  amazon_StepCreateSecurityGroups :: string
  amazon_StepNameCreateInstanceProfiles :: string
  amazon_StepImportKeyPair :: string
  amazon_StepCreateInternetGateway :: string
  amazon_StepCreateSubnets :: string
  amazon_StepCreateRouteTable :: string
  amazon_StepAssociateRouteTable :: string
  azure_CreateGroupStepName :: string
  azure_CreateVNetStepName :: string
  stepsMap :: "string \<rightharpoonup> ('c, 'x) Step"

text \<open>
  Modelled from the spec: \<^verbatim>\<open>steps.GetStep\<close> is not among the sources. The spec gives
  it as \<^verbatim>\<open>GetStep(name) -> Step | nil\<close>, a lookup in the registry; \<open>None\<close> is the nil
  interface value returned for a name that was never registered.
\<close>

definition GetStep :: "('c, 'x) env \<Rightarrow> string \<Rightarrow> ('c, 'x) Step option" where
  "GetStep E name = stepsMap E name"

subsection \<open>Calls of step methods, as observed\<close>

text \<open>
  Every call the composite step makes of a method of a step is recorded, in order:
  the call of \<open>Run\<close>, its return with the returned error, and a call of \<open>Rollback\<close>.
\<close>

datatype ('c, 'x) event =
  RunCall "('c, 'x) Step"
| RunRet "('c, 'x) Step" "error option"
| RollbackCall "('c, 'x) Step"

fun isRollbackCall :: "('c, 'x) event \<Rightarrow> bool" where
  "isRollbackCall (RollbackCall s) = True"
| "isRollbackCall _ = False"

subsection \<open>The source functions\<close>

definition PreProvisionStep :: string where
  "PreProvisionStep = ''preProvision''"

text \<open>
  \<^verbatim>\<open>prepProvisionStepFor\<close>: the switch takes the first case that equals the provider.
  The result is the error (\<open>Inl\<close>) or the slice of looked-up steps (\<open>Inr\<close>); a slice
  element is \<open>None\<close> where \<open>GetStep\<close> returned nil.
\<close>

definition prepProvisionStepFor ::
  "('c, 'x) env \<Rightarrow> clouds_Name \<Rightarrow> error + ('c, 'x) Step option list" where
  "prepProvisionStepFor E provider =
     (if provider = AWS E then
        Inr [GetStep E (amazon_StepFindAMI E),
             GetStep E (amazon_StepCreateVPC E),
             GetStep E (amazon_StepCreateSecurityGroups E),
             GetStep E (amazon_StepNameCreateInstanceProfiles E),
             GetStep E (amazon_StepImportKeyPair E),
             GetStep E (amazon_StepCreateInternetGateway E),
             GetStep E (amazon_StepCreateSubnets E),
             GetStep E (amazon_StepCreateRouteTable E),
             GetStep E (amazon_StepAssociateRouteTable E)]
      else if provider = DigitalOcean E then Inr []
      else if provider = GCE E then Inr []
      else if provider = Azure E then
        Inr [GetStep E (azure_CreateGroupStepName E),
             GetStep E (azure_CreateVNetStepName E)]
      else Inl (errors_New (''unknown provider: '' @ provider)))"

text \<open>
  The loop of \<^verbatim>\<open>StepPreProvision.Run\<close> over the resolved steps. Calling \<open>Run\<close> on a
  nil element panics. A non-nil error of a step is wrapped and returned at once; the
  loop goes on to the next element only after a nil error. The result is the outcome,
  the state left behind, and the calls made.
\<close>

fun Run_loop ::
  "('c, 'x) Step option list \<Rightarrow> ('c, 'x) state \<Rightarrow>
     error option outcome \<times> ('c, 'x) state \<times> ('c, 'x) event list" where
  "Run_loop [] \<sigma> = (Return None, \<sigma>, [])"
| "Run_loop (None # ss) \<sigma> = (Panic NilDereference, \<sigma>, [])"
| "Run_loop (Some s # ss) \<sigma> =
     (case Run s \<sigma> of
        (Some err, \<sigma>') \<Rightarrow>
          (Return (errors_Wrap (Some err) PreProvisionStep), \<sigma>', [RunCall s, RunRet s (Some err)])
      | (None, \<sigma>') \<Rightarrow>
          (case Run_loop ss \<sigma>' of
             (r, \<sigma>'', tr) \<Rightarrow> (r, \<sigma>'', RunCall s # RunRet s None # tr)))"

definition StepPreProvision_Run ::
  "('c, 'x) env \<Rightarrow> ('c, 'x) state \<Rightarrow>
     error option outcome \<times> ('c, 'x) state \<times> ('c, 'x) event list" where
  "StepPreProvision_Run E \<sigma> =
     (case config \<sigma> of
        None \<Rightarrow> (Return (Some (errors_New ''invalid config'')), \<sigma>, [])
      | Some cfg \<Rightarrow>
          (case prepProvisionStepFor E (Provider cfg) of
             Inl err \<Rightarrow> (Return (errors_Wrap (Some err) PreProvisionStep), \<sigma>, [])
           | Inr steps \<Rightarrow> Run_loop steps \<sigma>))"

definition StepPreProvision_Name :: string where
  "StepPreProvision_Name = PreProvisionStep"

definition StepPreProvision_Description :: string where
  "StepPreProvision_Description = PreProvisionStep"

definition StepPreProvision_Depends :: "string list" where
  "StepPreProvision_Depends = []"

definition StepPreProvision_Rollback ::
  "('c, 'x) state \<Rightarrow> error option outcome \<times> ('c, 'x) state \<times> ('c, 'x) event list" where
  "StepPreProvision_Rollback \<sigma> = (Return None, \<sigma>, [])"

section \<open>Package kube: storing a cluster record\<close>





section \<open>Vocabulary for stating the properties\<close>

text \<open>The calls observed when each step of a list is run and returns nil.\<close>

fun ok_events :: "('c, 'x) Step list \<Rightarrow> ('c, 'x) event list" where
  "ok_events [] = []"
| "ok_events (s # ss) = RunCall s # RunRet s None # ok_events ss"

text \<open>
  The state reached when the steps of a list are run one after the other and each
  returns nil; \<open>None\<close> when one of them returns an error.
\<close>

fun after_ok :: "('c, 'x) Step list \<Rightarrow> ('c, 'x) state \<Rightarrow> ('c, 'x) state option" where
  "after_ok [] \<sigma> = Some \<sigma>"
| "after_ok (s # ss) \<sigma> =
     (case Run s \<sigma> of
        (None, \<sigma>') \<Rightarrow> after_ok ss \<sigma>'
      | (Some err, \<sigma>') \<Rightarrow> None)"

section \<open>Concrete steps, registries and states for the examples\<close>

text \<open>A step that writes its name to the output and succeeds, and one that fails.\<close>

definition succeeding :: "string \<Rightarrow> (unit, unit) Step" where
  "succeeding n =
     \<lparr>Name = n, Description = n, Depends = [],
      Run = (\<lambda>\<sigma>. (None, \<sigma>\<lparr>out := out \<sigma> @ n\<rparr>)),
      Rollback = (\<lambda>\<sigma>. (None, \<sigma>))\<rparr>"

definition failing :: "string \<Rightarrow> error \<Rightarrow> (unit, unit) Step" where
  "failing n e =
     \<lparr>Name = n, Description = n, Depends = [],
      Run = (\<lambda>\<sigma>. (Some e, \<sigma>)),
      Rollback = (\<lambda>\<sigma>. (None, \<sigma>))\<rparr>"

definition boom :: error where
  "boom = fundamental ''quota exceeded''"

definition example_env :: "(string \<rightharpoonup> (unit, unit) Step) \<Rightarrow> (unit, unit) env" where
  "example_env reg =
     \<lparr>AWS = ''aws'', DigitalOcean = ''digitalocean'', GCE = ''gce'', Azure = ''azure'',
      amazon_StepFindAMI = ''aws_find_ami'',
      amazon_StepCreateVPC = ''aws_create_vpc'',
      amazon_StepCreateSecurityGroups = ''aws_create_security_groups'',
      amazon_StepNameCreateInstanceProfiles = ''aws_create_instance_profiles'',
      amazon_StepImportKeyPair = ''aws_import_key_pair'',
      amazon_StepCreateInternetGateway = ''aws_create_internet_gateway'',
      amazon_StepCreateSubnets = ''aws_create_subnets'',
      amazon_StepCreateRouteTable = ''aws_create_route_table'',
      amazon_StepAssociateRouteTable = ''aws_associate_route_table'',
      azure_CreateGroupStepName = ''group'',
      azure_CreateVNetStepName = ''vnet'',
      stepsMap = reg\<rparr>"

text \<open>Registries: both Azure steps succeed; the second fails; nothing is registered.\<close>

definition reg_ok :: "string \<rightharpoonup> (unit, unit) Step" where
  "reg_ok = [''group'' \<mapsto> succeeding ''group'', ''vnet'' \<mapsto> succeeding ''vnet'']"

definition reg_fail :: "string \<rightharpoonup> (unit, unit) Step" where
  "reg_fail = [''group'' \<mapsto> succeeding ''group'', ''vnet'' \<mapsto> failing ''vnet'' boom]"


definition example_state :: "bool \<Rightarrow> string \<Rightarrow> clouds_Name \<Rightarrow> (unit, unit) state" where
  "example_state c written p =
     \<lparr>cancelled = c, out = written, config = Some \<lparr>Provider = p, rest = ()\<rparr>, cloud = ()\<rparr>"

definition nil_config_state :: "(unit, unit) state" where
  "nil_config_state = \<lparr>cancelled = False, out = [], config = None, cloud = ()\<rparr>"










section \<open>Lemmas about the model\<close>

text \<open>
  Once the steps of a prefix have all returned nil, the loop goes on with the rest of
  the slice from the state they left, and has made exactly their calls so far.
\<close>

lemma Run_loop_after_ok:
  "after_ok pre \<sigma> = Some \<sigma>1 \<Longrightarrow>
   Run_loop (map Some pre @ post) \<sigma> =
     (case Run_loop post \<sigma>1 of (r, \<sigma>', tr) \<Rightarrow> (r, \<sigma>', ok_events pre @ tr))"
  by (induction pre arbitrary: \<sigma>) (auto split: prod.splits option.splits)

lemma Run_loop_no_rollback:
  "Run_loop ss \<sigma> = (r, \<sigma>', tr) \<Longrightarrow> filter isRollbackCall tr = []"
  by (induction ss \<sigma> arbitrary: r \<sigma>' tr rule: Run_loop.induct)
    (auto split: prod.splits option.splits)

lemma ok_events_no_rollback: "filter isRollbackCall (ok_events ss) = []"
  by (induction ss) auto

text \<open>A loop that returns nil has run every element, and none of them was nil.\<close>

lemma Run_loop_success:
  "Run_loop ss \<sigma> = (Return None, \<sigma>', tr) \<Longrightarrow>
   \<exists>steps. ss = map Some steps \<and> after_ok steps \<sigma> = Some \<sigma>' \<and> tr = ok_events steps"
proof (induction ss \<sigma> arbitrary: \<sigma>' tr rule: Run_loop.induct)
  case (1 \<sigma>)
  then show ?case by simp
next
  case (2 ss \<sigma>)
  then show ?case by simp
next
  case (3 s ss \<sigma>)
  obtain e \<sigma>1 where run: "Run s \<sigma> = (e, \<sigma>1)" by (cases "Run s \<sigma>")
  show ?case
  proof (cases e)
    case None
    obtain r2 \<sigma>2 tr2 where rest: "Run_loop ss \<sigma>1 = (r2, \<sigma>2, tr2)"
      by (cases "Run_loop ss \<sigma>1")
    with "3.prems" run None
    have eq: "r2 = Return None" "\<sigma>2 = \<sigma>'" "tr = RunCall s # RunRet s None # tr2"
      by simp_all
    from "3.IH"[OF run[symmetric] None, of \<sigma>' tr2] rest eq
    obtain steps where
      "ss = map Some steps" "after_ok steps \<sigma>1 = Some \<sigma>'" "tr2 = ok_events steps"
      by auto
    then have "Some s # ss = map Some (s # steps) \<and>
        after_ok (s # steps) \<sigma> = Some \<sigma>' \<and> tr = ok_events (s # steps)"
      using run None eq by simp
    then show ?thesis by (rule exI[of _ "s # steps"])
  next
    case (Some err)
    with "3.prems" run show ?thesis by simp
  qed
qed


text \<open>What the whole of \<open>Run\<close> does once the Config is there and the pipeline resolved.\<close>

lemma Run_resolved:
  "config \<sigma> = Some cfg \<Longrightarrow> prepProvisionStepFor E (Provider cfg) = Inr ss \<Longrightarrow>
   StepPreProvision_Run E \<sigma> = Run_loop ss \<sigma>"
  by (simp add: StepPreProvision_Run_def)

lemma Run_loop_fails_at:
  "after_ok pre \<sigma> = Some \<sigma>1 \<Longrightarrow> Run s \<sigma>1 = (Some err, \<sigma>2) \<Longrightarrow>
   Run_loop (map Some pre @ Some s # post) \<sigma> =
     (Return (Some (withMessage err PreProvisionStep)), \<sigma>2,
      ok_events pre @ [RunCall s, RunRet s (Some err)])"
  by (simp add: Run_loop_after_ok)


text \<open>The examples, evaluated.\<close>

lemma example_resolve_azure:
  "prepProvisionStepFor (example_env reg) ''azure'' = Inr [reg ''group'', reg ''vnet'']"
  by (simp add: prepProvisionStepFor_def example_env_def GetStep_def)

lemma example_config:
  "config (example_state c w p) = Some \<lparr>Provider = p, rest = ()\<rparr>"
  by (simp add: example_state_def)

lemma succeeding_Run:
  "Run (succeeding n) (example_state c w p) = (None, example_state c (w @ n) p)"
  by (simp add: succeeding_def example_state_def)

lemma failing_Run: "Run (failing n e) \<sigma> = (Some e, \<sigma>)"
  by (simp add: failing_def)


section \<open>The claims\<close>

text \<open>
  C1. Whatever the provider, when the resolved pipeline is \<open>ss\<close>: a run that returns
  nil has called \<open>Run\<close> on every element of \<open>ss\<close> in the order of the slice, each call
  made right after the one before returned nil (the calls observed are the alternation
  call, nil return, call, nil return, ...); and when the steps before some step have
  all returned nil and that step returns an error, the calls observed end with its
  failing return, so \<open>Run\<close> is called on no later step.
\<close>

theorem C1_run_order:
  assumes cfg: "config \<sigma> = Some cfg"
    and res: "prepProvisionStepFor E (Provider cfg) = Inr ss"
    and run: "StepPreProvision_Run E \<sigma> = (r, \<sigma>', tr)"
  shows "(r = Return None \<longrightarrow>
           (\<exists>steps. ss = map Some steps \<and> after_ok steps \<sigma> = Some \<sigma>' \<and> tr = ok_events steps))
       \<and> (\<forall>pre s post \<sigma>1 \<sigma>2 err.
            ss = map Some pre @ Some s # post \<and> after_ok pre \<sigma> = Some \<sigma>1 \<and>
            Run s \<sigma>1 = (Some err, \<sigma>2) \<longrightarrow>
            r = Return (Some (withMessage err PreProvisionStep)) \<and>
            tr = ok_events pre @ [RunCall s, RunRet s (Some err)])"
proof -
  have loop: "Run_loop ss \<sigma> = (r, \<sigma>', tr)"
    using Run_resolved[OF cfg res] run by simp
  have ok: "r = Return None \<longrightarrow>
      (\<exists>steps. ss = map Some steps \<and> after_ok steps \<sigma> = Some \<sigma>' \<and> tr = ok_events steps)"
    using loop Run_loop_success by blast
  have fail: "r = Return (Some (withMessage err PreProvisionStep)) \<and>
        tr = ok_events pre @ [RunCall s, RunRet s (Some err)]"
    if "ss = map Some pre @ Some s # post \<and> after_ok pre \<sigma> = Some \<sigma>1 \<and>
        Run s \<sigma>1 = (Some err, \<sigma>2)" for pre s post \<sigma>1 \<sigma>2 err
    using that loop Run_loop_fails_at[of pre \<sigma> \<sigma>1 s err \<sigma>2 post] by simp
  from ok fail show ?thesis by blast
qed

text \<open>
  The Azure pipeline with two succeeding steps, and with a second step that fails.
\<close>

theorem C1_run_order_witness:
  "StepPreProvision_Run (example_env reg_ok) (example_state False [] ''azure'') =
     (Return None, example_state False ''groupvnet'' ''azure'',
      [RunCall (succeeding ''group''), RunRet (succeeding ''group'') None,
       RunCall (succeeding ''vnet''), RunRet (succeeding ''vnet'') None])
   \<and> (\<exists>steps. [Some (succeeding ''group''), Some (succeeding ''vnet'')] = map Some steps \<and>
        after_ok steps (example_state False [] ''azure'') =
          Some (example_state False ''groupvnet'' ''azure'') \<and>
        [RunCall (succeeding ''group''), RunRet (succeeding ''group'') None,
         RunCall (succeeding ''vnet''), RunRet (succeeding ''vnet'') None] = ok_events steps)
   \<and> StepPreProvision_Run (example_env reg_fail) (example_state False [] ''azure'') =
     (Return (Some (withMessage boom PreProvisionStep)), example_state False ''group'' ''azure'',
      ok_events [succeeding ''group''] @
        [RunCall (failing ''vnet'' boom), RunRet (failing ''vnet'' boom) (Some boom)])"
proof -
  let ?s0 = "example_state False [] ''azure''"
  have res_ok: "prepProvisionStepFor (example_env reg_ok) (Provider \<lparr>Provider = ''azure'', rest = ()\<rparr>) =
      Inr [Some (succeeding ''group''), Some (succeeding ''vnet'')]"
    by (simp add: example_resolve_azure reg_ok_def)
  have run_ok: "StepPreProvision_Run (example_env reg_ok) ?s0 =
     (Return None, example_state False ''groupvnet'' ''azure'',
      [RunCall (succeeding ''group''), RunRet (succeeding ''group'') None,
       RunCall (succeeding ''vnet''), RunRet (succeeding ''vnet'') None])"
    by (simp add: Run_resolved[OF example_config res_ok] succeeding_Run)
  have res_fail: "prepProvisionStepFor (example_env reg_fail) (Provider \<lparr>Provider = ''azure'', rest = ()\<rparr>) =
      Inr (map Some [succeeding ''group''] @ Some (failing ''vnet'' boom) # [])"
    by (simp add: example_resolve_azure reg_fail_def)
  obtain r \<sigma>' tr where run_fail:
    "StepPreProvision_Run (example_env reg_fail) ?s0 = (r, \<sigma>', tr)"
    by (cases "StepPreProvision_Run (example_env reg_fail) ?s0")
  have pre: "after_ok [succeeding ''group''] ?s0 = Some (example_state False ''group'' ''azure'')"
    by (simp add: succeeding_Run)
  have fails: "Run (failing ''vnet'' boom) (example_state False ''group'' ''azure'') =
      (Some boom, example_state False ''group'' ''azure'')"
    by (rule failing_Run)
  have s': "\<sigma>' = example_state False ''group'' ''azure''"
    using run_fail by (simp add: Run_resolved[OF example_config res_fail] succeeding_Run failing_Run)
  from C1_run_order[OF example_config res_ok run_ok]
  have a: "\<exists>steps. [Some (succeeding ''group''), Some (succeeding ''vnet'')] = map Some steps \<and>
        after_ok steps ?s0 = Some (example_state False ''groupvnet'' ''azure'') \<and>
        [RunCall (succeeding ''group''), RunRet (succeeding ''group'') None,
         RunCall (succeeding ''vnet''), RunRet (succeeding ''vnet'') None] = ok_events steps"
    by simp
  from C1_run_order[OF example_config res_fail run_fail] pre fails
  have b: "r = Return (Some (withMessage boom PreProvisionStep)) \<and>
       tr = ok_events [succeeding ''group''] @
        [RunCall (failing ''vnet'' boom), RunRet (failing ''vnet'' boom) (Some boom)]"
    by blast
  show ?thesis using run_ok a b run_fail s' by simp
qed

text \<open>
  C2, as stated, fails. In the Azure pipeline whose first step succeeds and whose
  second step fails, the claim asks for \<open>Rollback\<close> on the first step; the composite
  step calls \<open>Rollback\<close> on nothing.
\<close>

theorem C2_rollback_counterexample:
  "StepPreProvision_Run (example_env reg_fail) (example_state False [] ''azure'') =
     (Return (Some (withMessage boom PreProvisionStep)), example_state False ''group'' ''azure'',
      [RunCall (succeeding ''group''), RunRet (succeeding ''group'') None,
       RunCall (failing ''vnet'' boom), RunRet (failing ''vnet'' boom) (Some boom)])
   \<and> filter isRollbackCall
        [RunCall (succeeding ''group''), RunRet (succeeding ''group'') None,
         RunCall (failing ''vnet'' boom), RunRet (failing ''vnet'' boom) (Some boom)]
       \<noteq> map RollbackCall (rev [succeeding ''group''])"
proof -
  have res: "prepProvisionStepFor (example_env reg_fail) (Provider \<lparr>Provider = ''azure'', rest = ()\<rparr>) =
      Inr [Some (succeeding ''group''), Some (failing ''vnet'' boom)]"
    by (simp add: example_resolve_azure reg_fail_def)
  show ?thesis
    by (simp add: Run_resolved[OF example_config res] succeeding_Run failing_Run PreProvisionStep_def)
qed

text \<open>
  C2, amended. When the steps before step \<open>s\<close> have returned nil and \<open>s\<close> returns an
  error, the composite step returns that error wrapped, at once, and calls \<open>Rollback\<close>
  on no step, neither on the completed ones nor on \<open>s\<close> or a later one: the state is
  the one the failing step left. The composite step's own \<open>Rollback\<close> undoes nothing
  either. Compensation is not part of this function.
\<close>

theorem C2_no_rollback:
  assumes cfg: "config \<sigma> = Some cfg"
    and res: "prepProvisionStepFor E (Provider cfg) = Inr (map Some pre @ Some s # post)"
    and pre: "after_ok pre \<sigma> = Some \<sigma>1"
    and fails: "Run s \<sigma>1 = (Some err, \<sigma>2)"
  shows "StepPreProvision_Run E \<sigma> =
           (Return (Some (withMessage err PreProvisionStep)), \<sigma>2,
            ok_events pre @ [RunCall s, RunRet s (Some err)])
       \<and> filter isRollbackCall (ok_events pre @ [RunCall s, RunRet s (Some err)]) = []
       \<and> StepPreProvision_Rollback \<sigma>2 = (Return None, \<sigma>2, [])"
  using Run_resolved[OF cfg res] Run_loop_fails_at[OF pre fails, of post]
  by (simp add: ok_events_no_rollback StepPreProvision_Rollback_def)

text \<open>
  The amended C2 on the Azure pipeline whose second step fails.
\<close>

theorem C2_no_rollback_witness:
  "StepPreProvision_Run (example_env reg_fail) (example_state False [] ''azure'') =
     (Return (Some (withMessage boom PreProvisionStep)), example_state False ''group'' ''azure'',
      ok_events [succeeding ''group''] @
        [RunCall (failing ''vnet'' boom), RunRet (failing ''vnet'' boom) (Some boom)])
   \<and> filter isRollbackCall (ok_events [succeeding ''group''] @
        [RunCall (failing ''vnet'' boom), RunRet (failing ''vnet'' boom) (Some boom)]) = []
   \<and> StepPreProvision_Rollback (example_state False ''group'' ''azure'') =
       (Return None, example_state False ''group'' ''azure'', [])"
proof -
  have res: "prepProvisionStepFor (example_env reg_fail) (Provider \<lparr>Provider = ''azure'', rest = ()\<rparr>) =
      Inr (map Some [succeeding ''group''] @ Some (failing ''vnet'' boom) # [])"
    by (simp add: example_resolve_azure reg_fail_def)
  have pre: "after_ok [succeeding ''group''] (example_state False [] ''azure'') =
      Some (example_state False ''group'' ''azure'')"
    by (simp add: succeeding_Run)
  show ?thesis
    by (rule C2_no_rollback[OF example_config res pre failing_Run])
qed

text \<open>
  C3. For a provider that is none of the four names of the switch, \<open>Run\<close> returns the
  error \<^verbatim>\<open>unknown provider: <name>\<close> wrapped with the stage name, whose message reads
  \<^verbatim>\<open>preProvision: unknown provider: <name>\<close>; it calls no step and leaves the state
  as it was.
\<close>

theorem C3_unknown_provider:
  assumes cfg: "config \<sigma> = Some cfg"
    and unknown: "Provider cfg \<notin> {AWS E, DigitalOcean E, GCE E, Azure E}"
  shows "StepPreProvision_Run E \<sigma> =
           (Return (Some (withMessage (fundamental (''unknown provider: '' @ Provider cfg))
                            PreProvisionStep)), \<sigma>, [])
       \<and> Error (withMessage (fundamental (''unknown provider: '' @ Provider cfg)) PreProvisionStep) =
           ''preProvision: unknown provider: '' @ Provider cfg"
  using cfg unknown
  by (simp add: StepPreProvision_Run_def prepProvisionStepFor_def errors_New_def PreProvisionStep_def)

text \<open>
  C3 for the provider name \<^verbatim>\<open>packet\<close>.
\<close>

theorem C3_unknown_provider_witness:
  "StepPreProvision_Run (example_env reg_ok) (example_state False [] ''packet'') =
     (Return (Some (withMessage (fundamental ''unknown provider: packet'') PreProvisionStep)),
      example_state False [] ''packet'', [])
   \<and> Error (withMessage (fundamental ''unknown provider: packet'') PreProvisionStep) =
       ''preProvision: unknown provider: packet''"
proof -
  have unknown: "Provider \<lparr>Provider = ''packet'', rest = ()\<rparr> \<notin>
      {AWS (example_env reg_ok), DigitalOcean (example_env reg_ok), GCE (example_env reg_ok),
       Azure (example_env reg_ok)}"
    by (simp add: example_env_def)
  from C3_unknown_provider[OF example_config unknown] show ?thesis by simp
qed

text \<open>
  C4. When the resolved pipeline is empty, \<open>Run\<close> returns nil, calls neither \<open>Run\<close> nor
  \<open>Rollback\<close> on any step, and leaves the state, the Config in it, as it was. The
  switch resolves DigitalOcean and GCE to the empty pipeline (the case of AWS comes
  first in the switch, so the name must not be the one of AWS).
\<close>

theorem C4_empty_pipeline:
  assumes cfg: "config \<sigma> = Some cfg"
  shows "(prepProvisionStepFor E (Provider cfg) = Inr [] \<longrightarrow>
            StepPreProvision_Run E \<sigma> = (Return None, \<sigma>, []))
       \<and> (Provider cfg \<noteq> AWS E \<and> (Provider cfg = DigitalOcean E \<or> Provider cfg = GCE E) \<longrightarrow>
            prepProvisionStepFor E (Provider cfg) = Inr [])"
  using cfg by (auto simp add: StepPreProvision_Run_def prepProvisionStepFor_def)

text \<open>
  C4 for the two providers with an empty pipeline.
\<close>

theorem C4_empty_pipeline_witness:
  "prepProvisionStepFor (example_env reg_ok) ''digitalocean'' = Inr []
   \<and> StepPreProvision_Run (example_env reg_ok) (example_state False [] ''digitalocean'') =
       (Return None, example_state False [] ''digitalocean'', [])
   \<and> prepProvisionStepFor (example_env reg_ok) ''gce'' = Inr []
   \<and> StepPreProvision_Run (example_env reg_ok) (example_state False [] ''gce'') =
       (Return None, example_state False [] ''gce'', [])"
proof -
  have d: "Provider \<lparr>Provider = ''digitalocean'', rest = ()\<rparr> \<noteq> AWS (example_env reg_ok) \<and>
      (Provider \<lparr>Provider = ''digitalocean'', rest = ()\<rparr> = DigitalOcean (example_env reg_ok) \<or>
       Provider \<lparr>Provider = ''digitalocean'', rest = ()\<rparr> = GCE (example_env reg_ok))"
    by (simp add: example_env_def)
  have g: "Provider \<lparr>Provider = ''gce'', rest = ()\<rparr> \<noteq> AWS (example_env reg_ok) \<and>
      (Provider \<lparr>Provider = ''gce'', rest = ()\<rparr> = DigitalOcean (example_env reg_ok) \<or>
       Provider \<lparr>Provider = ''gce'', rest = ()\<rparr> = GCE (example_env reg_ok))"
    by (simp add: example_env_def)
  from C4_empty_pipeline[OF example_config[of False "[]" "''digitalocean''"], of "example_env reg_ok"] d
  have 1: "prepProvisionStepFor (example_env reg_ok) ''digitalocean'' = Inr []
     \<and> StepPreProvision_Run (example_env reg_ok) (example_state False [] ''digitalocean'') =
       (Return None, example_state False [] ''digitalocean'', [])"
    by simp
  from C4_empty_pipeline[OF example_config[of False "[]" "''gce''"], of "example_env reg_ok"] g
  have 2: "prepProvisionStepFor (example_env reg_ok) ''gce'' = Inr []
     \<and> StepPreProvision_Run (example_env reg_ok) (example_state False [] ''gce'') =
       (Return None, example_state False [] ''gce'', [])"
    by simp
  from 1 2 show ?thesis by simp
qed

text \<open>
  C5. With a nil Config pointer, whatever the context and the output, \<open>Run\<close> returns
  the error \<^verbatim>\<open>invalid config\<close>: it returns rather than panics, calls no step, and
  changes nothing.
\<close>

theorem C5_nil_config:
  assumes "config \<sigma> = None"
  shows "StepPreProvision_Run E \<sigma> = (Return (Some (fundamental ''invalid config'')), \<sigma>, [])"
  using assms by (simp add: StepPreProvision_Run_def errors_New_def)

text \<open>
  C5 on a state whose Config pointer is nil.
\<close>

theorem C5_nil_config_witness:
  "StepPreProvision_Run (example_env reg_ok) nil_config_state =
     (Return (Some (fundamental ''invalid config'')), nil_config_state, [])"
proof -
  have "config nil_config_state = None" by (simp add: nil_config_state_def)
  then show ?thesis by (rule C5_nil_config)
qed

text \<open>
  C6. When an inner step fails with error \<open>err\<close> during \<open>Run\<close> (the steps before it
  returned nil, and it returns \<open>err\<close>), the error \<open>Run\<close> returns is \<open>err\<close> wrapped with
  the stage name: its chain is the wrapper followed by the chain of \<open>err\<close>, its message
  is \<^verbatim>\<open>preProvision: \<close> followed by the message of \<open>err\<close>, and its cause is the
  cause of \<open>err\<close>.
\<close>

theorem C6_error_wrapped:
  assumes cfg: "config \<sigma> = Some cfg"
    and res: "prepProvisionStepFor E (Provider cfg) = Inr (map Some pre @ Some s # post)"
    and pre: "after_ok pre \<sigma> = Some \<sigma>1"
    and fails: "Run s \<sigma>1 = (Some err, \<sigma>2)"
    and run: "StepPreProvision_Run E \<sigma> = (r, \<sigma>', tr)"
  shows "r = Return (Some (withMessage err PreProvisionStep))
       \<and> chain (withMessage err PreProvisionStep) = withMessage err PreProvisionStep # chain err
       \<and> messages (withMessage err PreProvisionStep) = ''preProvision'' # messages err
       \<and> Error (withMessage err PreProvisionStep) = ''preProvision: '' @ Error err
       \<and> Cause (withMessage err PreProvisionStep) = Cause err
       \<and> err \<in> set (chain (withMessage err PreProvisionStep))"
proof -
  have "err \<in> set (chain err)" by (cases err) simp_all
  then show ?thesis
    using Run_resolved[OF cfg res] Run_loop_fails_at[OF pre fails, of post] run
    by (simp add: PreProvisionStep_def)
qed

text \<open>
  C6 on the Azure pipeline whose second step fails with \<^verbatim>\<open>quota exceeded\<close>.
\<close>

theorem C6_error_wrapped_witness:
  "StepPreProvision_Run (example_env reg_fail) (example_state False [] ''azure'') =
     (Return (Some (withMessage boom PreProvisionStep)), example_state False ''group'' ''azure'',
      [RunCall (succeeding ''group''), RunRet (succeeding ''group'') None,
       RunCall (failing ''vnet'' boom), RunRet (failing ''vnet'' boom) (Some boom)])
   \<and> Error (withMessage boom PreProvisionStep) = ''preProvision: quota exceeded''
   \<and> Cause (withMessage boom PreProvisionStep) = boom
   \<and> boom \<in> set (chain (withMessage boom PreProvisionStep))"
proof -
  have res: "prepProvisionStepFor (example_env reg_fail) (Provider \<lparr>Provider = ''azure'', rest = ()\<rparr>) =
      Inr (map Some [succeeding ''group''] @ Some (failing ''vnet'' boom) # [])"
    by (simp add: example_resolve_azure reg_fail_def)
  have pre: "after_ok [succeeding ''group''] (example_state False [] ''azure'') =
      Some (example_state False ''group'' ''azure'')"
    by (simp add: succeeding_Run)
  have run: "StepPreProvision_Run (example_env reg_fail) (example_state False [] ''azure'') =
     (Return (Some (withMessage boom PreProvisionStep)), example_state False ''group'' ''azure'',
      [RunCall (succeeding ''group''), RunRet (succeeding ''group'') None,
       RunCall (failing ''vnet'' boom), RunRet (failing ''vnet'' boom) (Some boom)])"
    by (simp add: Run_resolved[OF example_config res] succeeding_Run failing_Run PreProvisionStep_def)
  from C6_error_wrapped[OF example_config res pre failing_Run run] run
  show ?thesis by (simp add: boom_def)
qed




text \<open>
  C8, as stated, fails. The context is cancelled before the run starts and still is
  when the first Azure step has finished; the composite step starts the second step
  nevertheless, returns nil, and rolls nothing back.
\<close>

theorem C8_cancelled_counterexample:
  "after_ok [succeeding ''group''] (example_state True [] ''azure'') =
     Some (example_state True ''group'' ''azure'')
   \<and> cancelled (example_state True ''group'' ''azure'')
   \<and> StepPreProvision_Run (example_env reg_ok) (example_state True [] ''azure'') =
     (Return None, example_state True ''groupvnet'' ''azure'',
      [RunCall (succeeding ''group''), RunRet (succeeding ''group'') None,
       RunCall (succeeding ''vnet''), RunRet (succeeding ''vnet'') None])
   \<and> RunCall (succeeding ''vnet'') \<in> set
      [RunCall (succeeding ''group''), RunRet (succeeding ''group'') None,
       RunCall (succeeding ''vnet''), RunRet (succeeding ''vnet'') None]
   \<and> filter isRollbackCall
      [RunCall (succeeding ''group''), RunRet (succeeding ''group'') None,
       RunCall (succeeding ''vnet''), RunRet (succeeding ''vnet'') None] = []"
proof -
  have res: "prepProvisionStepFor (example_env reg_ok)
      (Provider \<lparr>Provider = ''azure'', rest = ()\<rparr>) =
      Inr [Some (succeeding ''group''), Some (succeeding ''vnet'')]"
    by (simp add: example_resolve_azure reg_ok_def)
  show ?thesis
    by (simp add: Run_resolved[OF example_config res] succeeding_Run)
      (simp add: example_state_def)
qed

text \<open>
  C8, amended. The composite step does not look at the context between steps; it
  only hands it on. When step \<open>s\<close> and the steps before it have returned nil, the next
  step \<open>t\<close> is started even though the context is cancelled at that moment, and no
  step is rolled back by the composite step.
\<close>

theorem C8_cancellation_not_observed:
  assumes cfg: "config \<sigma> = Some cfg"
    and res: "prepProvisionStepFor E (Provider cfg) = Inr (map Some (pre @ [s]) @ Some t # post)"
    and pre: "after_ok (pre @ [s]) \<sigma> = Some \<sigma>N"
    and canc: "cancelled \<sigma>N"
    and run: "StepPreProvision_Run E \<sigma> = (r, \<sigma>', tr)"
  shows "(\<exists>later. tr = ok_events (pre @ [s]) @ RunCall t # later)
       \<and> filter isRollbackCall tr = []"
proof -
  have loop: "Run_loop (map Some (pre @ [s]) @ Some t # post) \<sigma> = (r, \<sigma>', tr)"
    using Run_resolved[OF cfg res] run by simp
  obtain r2 \<sigma>2 tr2 where rest: "Run_loop (Some t # post) \<sigma>N = (r2, \<sigma>2, tr2)"
    by (cases "Run_loop (Some t # post) \<sigma>N")
  then obtain later where "tr2 = RunCall t # later"
    by (auto split: prod.splits option.splits)
  moreover have "tr = ok_events (pre @ [s]) @ tr2"
    using loop rest Run_loop_after_ok[OF pre, of "Some t # post"] by simp
  ultimately have "\<exists>later. tr = ok_events (pre @ [s]) @ RunCall t # later"
    by blast
  then show ?thesis
    using Run_loop_no_rollback[OF loop] by simp
qed

text \<open>
  The amended C8 on the Azure pipeline under a cancelled context.
\<close>

theorem C8_cancellation_not_observed_witness:
  "cancelled (example_state True ''group'' ''azure'')
   \<and> (\<exists>later.
        [RunCall (succeeding ''group''), RunRet (succeeding ''group'') None,
         RunCall (succeeding ''vnet''), RunRet (succeeding ''vnet'') None] =
        ok_events ([] @ [succeeding ''group'']) @ RunCall (succeeding ''vnet'') # later)
   \<and> filter isRollbackCall
        [RunCall (succeeding ''group''), RunRet (succeeding ''group'') None,
         RunCall (succeeding ''vnet''), RunRet (succeeding ''vnet'') None] = []"
proof -
  have res: "prepProvisionStepFor (example_env reg_ok)
      (Provider \<lparr>Provider = ''azure'', rest = ()\<rparr>) =
      Inr (map Some ([] @ [succeeding ''group'']) @ Some (succeeding ''vnet'') # [])"
    by (simp add: example_resolve_azure reg_ok_def)
  have pre: "after_ok ([] @ [succeeding ''group'']) (example_state True [] ''azure'') =
      Some (example_state True ''group'' ''azure'')"
    by (simp add: succeeding_Run)
  have canc: "cancelled (example_state True ''group'' ''azure'')"
    by (simp add: example_state_def)
  have run: "StepPreProvision_Run (example_env reg_ok) (example_state True [] ''azure'') =
     (Return None, example_state True ''groupvnet'' ''azure'',
      [RunCall (succeeding ''group''), RunRet (succeeding ''group'') None,
       RunCall (succeeding ''vnet''), RunRet (succeeding ''vnet'') None])"
    by (simp add: Run_resolved[OF example_config res] succeeding_Run)
  from C8_cancellation_not_observed[OF example_config res pre canc run] canc
  show ?thesis by simp
qed

text \<open>
  C9. The composite step's \<open>Rollback\<close>, in every state (whatever the context, the
  output and the Config, nil or not, and whether or not \<open>Run\<close> was called before),
  returns nil, calls no step and leaves the state as it was; calling it again on the
  state it left does the same.
\<close>

theorem C9_rollback_noop:
  "StepPreProvision_Rollback \<sigma> = (Return None, \<sigma>, [])
   \<and> StepPreProvision_Rollback (fst (snd (StepPreProvision_Rollback \<sigma>))) =
       StepPreProvision_Rollback \<sigma>"
  by (simp add: StepPreProvision_Rollback_def)




end
